theory Spec2Isabelle
  imports Complex_Main "HOL-Library.Word"
begin

section \<open>Single-precision values\<close>

text \<open>
  The C++ type \<open>float\<close>. A finite value is carried as the real number it denotes (every
  binary32 value is one, so a statement over all of \<open>Finite x\<close> covers every finite
  float; the two zeros compare equal and are both \<open>Finite 0\<close>); the infinities and
  not-a-number are separate constructors, because \<open>std::floor\<close> and \<open>>\<close> treat them
  specially.
\<close>

datatype float = NaN | NegInf | Finite real | PosInf

text \<open>\<open>std::floor\<close>: exact on finite values, the identity on the special values.\<close>

fun floorf :: "float \<Rightarrow> float" where
  "floorf (Finite x) = Finite (of_int \<lfloor>x\<rfloor>)"
| "floorf NaN = NaN"
| "floorf NegInf = NegInf"
| "floorf PosInf = PosInf"

text \<open>The built-in \<open>a > b\<close> on floats: false as soon as one side is not a number.\<close>

fun float_gt :: "float \<Rightarrow> float \<Rightarrow> bool" where
  "float_gt NaN b = False"
| "float_gt a NaN = False"
| "float_gt PosInf PosInf = False"
| "float_gt PosInf b = True"
| "float_gt NegInf b = False"
| "float_gt (Finite x) NegInf = True"
| "float_gt (Finite x) PosInf = False"
| "float_gt (Finite x) (Finite y) = (y < x)"

section \<open>ChangePerSecond\<close>

record ChangePerSecond =
  m_valueTemp :: "32 word"
  m_value :: "32 word"
  m_valueTime :: float

text \<open>
  \<open>ChangePerSecond::Update\<close>, statement by statement: the post-increment of the tally,
  the comparison of the two floors, the two assignments of the branch, and the store of
  the timestamp.
\<close>

definition Update :: "float \<Rightarrow> ChangePerSecond \<Rightarrow> ChangePerSecond" where
  "Update time c =
     (let c1 = c\<lparr>m_valueTemp := m_valueTemp c + 1\<rparr>;
          c2 = (if float_gt (floorf time) (floorf (m_valueTime c1))
                then (c1\<lparr>m_value := m_valueTemp c1\<rparr>)\<lparr>m_valueTemp := 0\<rparr>
                else c1)
      in c2\<lparr>m_valueTime := time\<rparr>)"

text \<open>A counter whose three fields are zero.\<close>

definition zeroed :: ChangePerSecond where
  "zeroed = \<lparr>m_valueTemp = 0, m_value = 0, m_valueTime = Finite 0\<rparr>"

text \<open>One \<open>Update\<close> call per timestamp, oldest first.\<close>

fun feed :: "float list \<Rightarrow> ChangePerSecond \<Rightarrow> ChangePerSecond" where
  "feed [] c = c"
| "feed (t # ts) c = feed ts (Update t c)"

section \<open>Module registry\<close>

text \<open>
  \<open>ModuleHolder.hpp\<close> and \<open>Module.hpp\<close> are included by \<open>Engine.hpp\<close> but are not among
  the sources. A type identity is a number, a module instance is a value of the type
  parameter \<open>'m\<close> (its address).
\<close>

type_synonym TypeId = nat

text \<open>Modelled from the spec: the enumeration \<open>Module::Stage\<close>, in its order.\<close>

datatype Stage = Always | PreUpdate | UpdateNormal | PostUpdate | Render

text \<open>
  Modelled from the spec: the class \<open>ModuleHolder\<close>, a mapping from type identity to
  (stage, module) pairs plus, for each stage, the ordered sequence of the identities
  registered in it.
\<close>

record 'm ModuleHolder =
  entries :: "TypeId \<rightharpoonup> Stage \<times> 'm"
  sequence :: "Stage \<Rightarrow> TypeId list"

datatype report = Conflict

text \<open>Modelled from the spec: \<open>ModuleHolder::Has\<close> and \<open>ModuleHolder::Get\<close>.\<close>

definition Has :: "TypeId \<Rightarrow> 'm ModuleHolder \<Rightarrow> bool" where
  "Has t h = (entries h t \<noteq> None)"


text \<open>
  Modelled from the spec: \<open>ModuleHolder::Add\<close>. It registers the module under its type
  identity and stage and appends it to the sequence of the stage; when the identity is
  already registered it reports a conflict instead. The report is the first component
  of the result, the registry after the call the second.
\<close>

definition Add :: "TypeId \<Rightarrow> Stage \<Rightarrow> 'm \<Rightarrow> 'm ModuleHolder \<Rightarrow> report option \<times> 'm ModuleHolder" where
  "Add t stage inst h =
     (if Has t h then (Some Conflict, h)
      else (None, h\<lparr>entries := (entries h)(t \<mapsto> (stage, inst)),
                     sequence := (sequence h)(stage := sequence h stage @ [t])\<rparr>))"

text \<open>
  Modelled from the spec: \<open>ModuleHolder::Remove\<close>. It unregisters the module when it is
  present, taking it out of the sequence of its stage, and does nothing otherwise.
\<close>

definition Remove :: "TypeId \<Rightarrow> 'm ModuleHolder \<Rightarrow> 'm ModuleHolder" where
  "Remove t h =
     (case entries h t of
        None \<Rightarrow> h
      | Some (stage, inst) \<Rightarrow>
          h\<lparr>entries := (entries h)(t := None),
            sequence := (sequence h)(stage := removeAll t (sequence h stage))\<rparr>)"

section \<open>Engine\<close>

text \<open>
  The private members of \<open>Engine\<close>, in the order of the class. \<open>Time\<close>, \<open>Delta\<close> and
  \<open>Timer\<close> are classes outside the sources and stay type parameters; a \<open>Game\<close> is the
  type parameter \<open>'game\<close>, and the \<open>std::unique_ptr<Game>\<close> is an option (the null
  pointer is \<open>None\<close>).
\<close>

record ('m, 'game, 'time, 'delta, 'timer) Engine =
  m_modules :: "'m ModuleHolder"
  m_game :: "'game option"
  m_argv0 :: string
  m_timeOffset :: 'time
  m_fpsLimit :: float
  m_running :: bool
  m_deltaUpdate :: 'delta
  m_deltaRender :: 'delta
  m_timerUpdate :: 'timer
  m_timerRender :: 'timer
  m_ups :: ChangePerSecond
  m_fps :: ChangePerSecond



text \<open>
  \<open>Engine::AddModule\<close> is \<open>void\<close>: its one statement calls \<open>m_modules.Add\<close> and drops
  what the call returns, so of the result of \<open>Add\<close> only the registry is kept and no
  report is passed on. The argument \<open>inst\<close> is the instance that \<open>std::make_unique\<close> has
  constructed before \<open>Add\<close> is entered, whether or not the identity is registered.
\<close>

definition AddModule :: "TypeId \<Rightarrow> Stage \<Rightarrow> 'm \<Rightarrow> ('m, 'game, 'time, 'delta, 'timer) Engine
    \<Rightarrow> ('m, 'game, 'time, 'delta, 'timer) Engine" where
  "AddModule t stage inst e = e\<lparr>m_modules := snd (Add t stage inst (m_modules e))\<rparr>"

definition RemoveModule :: "TypeId \<Rightarrow> ('m, 'game, 'time, 'delta, 'timer) Engine
    \<Rightarrow> ('m, 'game, 'time, 'delta, 'timer) Engine" where
  "RemoveModule t e = e\<lparr>m_modules := Remove t (m_modules e)\<rparr>"

definition GetGame :: "('m, 'game, 'time, 'delta, 'timer) Engine \<Rightarrow> 'game option" where
  "GetGame e = m_game e"

text \<open>
  \<open>SetGame\<close> is \<open>m_game.reset(game)\<close>: the member takes the new pointer and the
  instance held before, if any, is deleted before \<open>reset\<close> returns. The result is the
  instance deleted and the engine after the call.
\<close>

definition SetGame :: "'game option \<Rightarrow> ('m, 'game, 'time, 'delta, 'timer) Engine
    \<Rightarrow> 'game option \<times> ('m, 'game, 'time, 'delta, 'timer) Engine" where
  "SetGame game e = (m_game e, e\<lparr>m_game := game\<rparr>)"

definition GetArgv0 :: "('m, 'game, 'time, 'delta, 'timer) Engine \<Rightarrow> string" where
  "GetArgv0 e = m_argv0 e"

definition GetTimeOffset :: "('m, 'game, 'time, 'delta, 'timer) Engine \<Rightarrow> 'time" where
  "GetTimeOffset e = m_timeOffset e"

definition SetTimeOffset :: "'time \<Rightarrow> ('m, 'game, 'time, 'delta, 'timer) Engine
    \<Rightarrow> ('m, 'game, 'time, 'delta, 'timer) Engine" where
  "SetTimeOffset timeOffset e = e\<lparr>m_timeOffset := timeOffset\<rparr>"

definition GetFpsLimit :: "('m, 'game, 'time, 'delta, 'timer) Engine \<Rightarrow> float" where
  "GetFpsLimit e = m_fpsLimit e"

definition SetFpsLimit :: "float \<Rightarrow> ('m, 'game, 'time, 'delta, 'timer) Engine
    \<Rightarrow> ('m, 'game, 'time, 'delta, 'timer) Engine" where
  "SetFpsLimit fpsLimit e = e\<lparr>m_fpsLimit := fpsLimit\<rparr>"

definition IsRunning :: "('m, 'game, 'time, 'delta, 'timer) Engine \<Rightarrow> bool" where
  "IsRunning e = m_running e"

definition GetUps :: "('m, 'game, 'time, 'delta, 'timer) Engine \<Rightarrow> 32 word" where
  "GetUps e = m_value (m_ups e)"

definition GetFps :: "('m, 'game, 'time, 'delta, 'timer) Engine \<Rightarrow> 32 word" where
  "GetFps e = m_value (m_fps e)"

text \<open>\<open>RequestClose\<close>: the body is the one assignment; the parameter is not read.\<close>

definition RequestClose :: "bool \<Rightarrow> ('m, 'game, 'time, 'delta, 'timer) Engine
    \<Rightarrow> ('m, 'game, 'time, 'delta, 'timer) Engine" where
  "RequestClose error e = e\<lparr>m_running := False\<rparr>"

section \<open>The run of the engine\<close>

text \<open>
  What a run does that is not a member of \<open>Engine\<close> is kept in a log beside the engine:
  the construction of a module instance, the deletion of a game instance, the
  invocation of the update hook of a game instance, and a suspension of the loop for a
  number of seconds.
\<close>

datatype ('m, 'game) event = Constructed 'm | Destroyed 'game | Updated 'game | Slept real

record ('m, 'game, 'time, 'delta, 'timer) World =
  engine :: "('m, 'game, 'time, 'delta, 'timer) Engine"
  events :: "('m, 'game) event list"

text \<open>
  Modelled from the spec: the frame-rate governor of the loop, whose code is in the body
  of \<open>Engine::Run\<close> and not among the sources. With a cap above zero and an interval
  between two renders shorter than \<open>1 / cap\<close> seconds the loop is suspended for the
  remaining time; otherwise it is not suspended. The result is the length of the
  suspension, if there is one.
\<close>

definition throttle :: "float \<Rightarrow> real \<Rightarrow> real option" where
  "throttle cap interval =
     (if float_gt cap (Finite 0)
      then (let period = (case cap of Finite c \<Rightarrow> 1 / c | other \<Rightarrow> 0)
            in if interval < period then Some (period - interval) else None)
      else None)"

text \<open>
  Modelled from the spec: the four \<open>Loop\<close> steps, which are the actions of one iteration
  of \<open>Engine::Run\<close> on the engine, with the values that come from outside (the clock in
  seconds, the sampled \<open>Delta\<close> and \<open>Timer\<close> objects, the measured interval) as
  arguments. The six \<open>Call\<close> steps are the public members of \<open>Engine\<close> that change it, as
  a module or the game may call them at any point of a run; the members that only read
  are the functions above.
\<close>

datatype ('m, 'game, 'time, 'delta, 'timer) step =
    CallAddModule TypeId Stage 'm
  | CallRemoveModule TypeId
  | CallSetGame "'game option"
  | CallSetTimeOffset 'time
  | CallSetFpsLimit float
  | CallRequestClose bool
  | LoopUpdate float 'delta 'timer
  | LoopGameHook
  | LoopRender float 'delta 'timer
  | LoopThrottle real

text \<open>
  Modelled from the spec: the effect of the four \<open>Loop\<close> steps. The update and the
  render sample store the sampled objects and feed the clock to the rate counter of the
  phase, the hook step invokes the update hook of the game the engine holds, and the
  governor suspends the loop as \<open>throttle\<close> says. A \<open>Call\<close> step is the member of that
  name; the instance that \<open>AddModule\<close> constructs is logged before the registry is
  entered, and the instance that \<open>SetGame\<close> deletes is logged at that call.
\<close>

fun exec :: "('m, 'game, 'time, 'delta, 'timer) step \<Rightarrow> ('m, 'game, 'time, 'delta, 'timer) World
    \<Rightarrow> ('m, 'game, 'time, 'delta, 'timer) World" where
  "exec (CallAddModule t stage inst) w =
     (let w' = w\<lparr>events := events w @ [Constructed inst]\<rparr>
      in w'\<lparr>engine := AddModule t stage inst (engine w')\<rparr>)"
| "exec (CallRemoveModule t) w = w\<lparr>engine := RemoveModule t (engine w)\<rparr>"
| "exec (CallSetGame game) w =
     (case SetGame game (engine w) of
        (None, e) \<Rightarrow> w\<lparr>engine := e\<rparr>
      | (Some old, e) \<Rightarrow> w\<lparr>engine := e, events := events w @ [Destroyed old]\<rparr>)"
| "exec (CallSetTimeOffset timeOffset) w = w\<lparr>engine := SetTimeOffset timeOffset (engine w)\<rparr>"
| "exec (CallSetFpsLimit fpsLimit) w = w\<lparr>engine := SetFpsLimit fpsLimit (engine w)\<rparr>"
| "exec (CallRequestClose error) w = w\<lparr>engine := RequestClose error (engine w)\<rparr>"
| "exec (LoopUpdate time delta timer) w =
     w\<lparr>engine := (engine w)\<lparr>m_deltaUpdate := delta, m_timerUpdate := timer,
                               m_ups := Update time (m_ups (engine w))\<rparr>\<rparr>"
| "exec LoopGameHook w =
     (case GetGame (engine w) of
        None \<Rightarrow> w
      | Some game \<Rightarrow> w\<lparr>events := events w @ [Updated game]\<rparr>)"
| "exec (LoopRender time delta timer) w =
     w\<lparr>engine := (engine w)\<lparr>m_deltaRender := delta, m_timerRender := timer,
                               m_fps := Update time (m_fps (engine w))\<rparr>\<rparr>"
| "exec (LoopThrottle interval) w =
     (case throttle (GetFpsLimit (engine w)) interval of
        None \<Rightarrow> w
      | Some seconds \<Rightarrow> w\<lparr>events := events w @ [Slept seconds]\<rparr>)"

fun execs :: "('m, 'game, 'time, 'delta, 'timer) step list \<Rightarrow> ('m, 'game, 'time, 'delta, 'timer) World
    \<Rightarrow> ('m, 'game, 'time, 'delta, 'timer) World" where
  "execs [] w = w"
| "execs (s # ss) w = execs ss (exec s w)"

text \<open>
  Modelled from the spec: one iteration of \<open>Engine::Run\<close>. A frame holds what the
  iteration receives from outside: the two clock readings with the sampled objects,
  whether the update phase runs in this iteration, the measured interval between
  renders, and the calls that the update-stage modules, the update hook of the game and
  the render-stage modules make on the engine.
\<close>

record ('m, 'game, 'time, 'delta, 'timer) frame =
  updateTime :: float
  updateDelta :: 'delta
  updateTimer :: 'timer
  tick :: bool
  moduleCalls :: "('m, 'game, 'time, 'delta, 'timer) step list"
  gameCalls :: "('m, 'game, 'time, 'delta, 'timer) step list"
  renderTime :: float
  renderDelta :: 'delta
  renderTimer :: 'timer
  interval :: real
  renderCalls :: "('m, 'game, 'time, 'delta, 'timer) step list"

text \<open>
  Modelled from the spec: the order of the actions within one iteration. The update
  sample comes first; the update phase (the update-stage modules, then the hook of the
  game) runs when the frame ticks; then the render sample, the governor and the
  render-stage modules.
\<close>

definition frame_steps :: "('m, 'game, 'time, 'delta, 'timer) frame
    \<Rightarrow> ('m, 'game, 'time, 'delta, 'timer) step list" where
  "frame_steps f =
     LoopUpdate (updateTime f) (updateDelta f) (updateTimer f)
     # (if tick f then moduleCalls f @ LoopGameHook # gameCalls f else [])
     @ LoopRender (renderTime f) (renderDelta f) (renderTimer f)
     # LoopThrottle (interval f)
     # renderCalls f"

text \<open>
  Modelled from the spec: the loop of \<open>Engine::Run\<close>, which repeats the iteration and
  checks the running flag again at the end of each one. It runs over the frames it is
  given; \<open>None\<close> says that the flag is still set after the last of them, so the loop
  has not returned.
\<close>

fun Run_loop :: "('m, 'game, 'time, 'delta, 'timer) frame list \<Rightarrow> ('m, 'game, 'time, 'delta, 'timer) World
    \<Rightarrow> ('m, 'game, 'time, 'delta, 'timer) World option" where
  "Run_loop [] w = None"
| "Run_loop (f # fs) w =
     (let w' = execs (frame_steps f) w
      in if IsRunning (engine w') then Run_loop fs w' else Some w')"

text \<open>
  Modelled from the spec: \<open>Engine::Run\<close>, declared in \<open>Engine.hpp\<close> and defined outside
  the sources. When the loop has stopped it returns an exit status. All that \<open>Run\<close> has
  for computing the status is the engine as the loop left it, so the computation is the
  parameter \<open>status\<close>, a function of that engine. The \<open>int32_t\<close> result is a 32-bit
  word; \<open>EXIT_SUCCESS\<close> is 0.
\<close>

definition Run :: "(('m, 'game, 'time, 'delta, 'timer) Engine \<Rightarrow> 32 word)
    \<Rightarrow> ('m, 'game, 'time, 'delta, 'timer) frame list \<Rightarrow> ('m, 'game, 'time, 'delta, 'timer) World
    \<Rightarrow> (32 word \<times> ('m, 'game, 'time, 'delta, 'timer) World) option" where
  "Run status fs w = map_option (\<lambda>w'. (status (engine w'), w')) (Run_loop fs w)"

text \<open>
  The same calls with the argument of every \<open>RequestClose\<close> replaced by \<open>false\<close>, in a
  step and in the three call lists of a frame.
\<close>

fun forget_error :: "('m, 'game, 'time, 'delta, 'timer) step \<Rightarrow> ('m, 'game, 'time, 'delta, 'timer) step" where
  "forget_error (CallRequestClose error) = CallRequestClose False"
| "forget_error s = s"

definition forget_errors :: "('m, 'game, 'time, 'delta, 'timer) frame
    \<Rightarrow> ('m, 'game, 'time, 'delta, 'timer) frame" where
  "forget_errors f =
     f\<lparr>moduleCalls := map forget_error (moduleCalls f),
       gameCalls := map forget_error (gameCalls f),
       renderCalls := map forget_error (renderCalls f)\<rparr>"

subsection \<open>A concrete engine\<close>

text \<open>
  An engine as it is when \<open>Run\<close> is entered: running, an empty registry, the game at
  address 1, no cap, zeroed counters. Addresses, times and the sampled objects are
  natural numbers here.
\<close>

definition engine0 :: "(nat, nat, nat, nat, nat) Engine" where
  "engine0 =
     \<lparr>m_modules = \<lparr>entries = Map.empty, sequence = (\<lambda>stage. [])\<rparr>,
      m_game = Some 1, m_argv0 = ''game'', m_timeOffset = 0, m_fpsLimit = Finite (- 1),
      m_running = True, m_deltaUpdate = 0, m_deltaRender = 0,
      m_timerUpdate = 0, m_timerRender = 0, m_ups = zeroed, m_fps = zeroed\<rparr>"

definition world0 :: "(nat, nat, nat, nat, nat) World" where
  "world0 = \<lparr>engine = engine0, events = []\<rparr>"

text \<open>An iteration in which the update hook of the game calls \<open>RequestClose(error)\<close>.\<close>

definition closing :: "bool \<Rightarrow> (nat, nat, nat, nat, nat) frame" where
  "closing error =
     \<lparr>updateTime = Finite 0.1, updateDelta = 1, updateTimer = 1, tick = True,
      moduleCalls = [], gameCalls = [CallRequestClose error],
      renderTime = Finite 0.1, renderDelta = 1, renderTimer = 1, interval = 0.1,
      renderCalls = []\<rparr>"

section \<open>The rate counter\<close>

lemma float_gt_floorf_Finite:
  "float_gt (floorf (Finite t)) (floorf (Finite l)) = (\<lfloor>l\<rfloor> < \<lfloor>t\<rfloor>)"
  by simp

text \<open>
  Claim C3. Every call of \<open>Update\<close> increments the tally by one (in \<open>uint32_t\<close>, so
  modulo \<open>2 ^ 32\<close>); exactly when the floor of the supplied time is greater than the
  floor of the stored timestamp, the incremented tally becomes the published value and
  the tally is reset to zero; the stored timestamp is the supplied time in both cases.
  On finite times the test is the comparison of the two integer seconds.
\<close>

theorem Update_tally_publish_timestamp:
  "Update time c =
     (if float_gt (floorf time) (floorf (m_valueTime c))
      then \<lparr>m_valueTemp = 0, m_value = m_valueTemp c + 1, m_valueTime = time\<rparr>
      else \<lparr>m_valueTemp = m_valueTemp c + 1, m_value = m_value c, m_valueTime = time\<rparr>)
   \<and> unat (m_valueTemp c + 1) = (unat (m_valueTemp c) + 1) mod 2 ^ 32
   \<and> float_gt (floorf (Finite t)) (floorf (Finite l)) = (\<lfloor>l\<rfloor> < \<lfloor>t\<rfloor>)"
  by (simp add: Update_def Let_def unat_word_ariths)

text \<open>
  Claim C2, as stated: fed the timestamps 0.1, 0.9, 1.2 from a zeroed counter, the
  published value after the call at 1.2 is 2. It is not: the call that crosses the
  boundary has incremented the tally before the tally is published.
\<close>

theorem feed_publishes_2_at_1_2_counterexample:
  "m_value (feed [Finite 0.1, Finite 0.9, Finite 1.2] zeroed) \<noteq> 2"
  by (simp add: Update_def zeroed_def)

text \<open>
  Claim C2, amended. Fed one call per timestamp 0.1, 0.9, 1.2, 1.8, 2.05 from a zeroed
  counter, the published value is 3 right after the call at 1.2 and 2 right after the
  call at 2.05, and the tally is zero after each of the two.
\<close>

theorem feed_publishes_3_then_2:
  "m_value (feed [Finite 0.1, Finite 0.9, Finite 1.2] zeroed) = 3
   \<and> m_valueTemp (feed [Finite 0.1, Finite 0.9, Finite 1.2] zeroed) = 0
   \<and> m_value (feed [Finite 0.1, Finite 0.9, Finite 1.2, Finite 1.8, Finite 2.05] zeroed) = 2
   \<and> m_valueTemp (feed [Finite 0.1, Finite 0.9, Finite 1.2, Finite 1.8, Finite 2.05] zeroed) = 0"
  by (simp add: Update_def zeroed_def)

text \<open>
  The same run on the binary32 values nearest to the five decimals, which is what a
  \<open>float\<close> holds: the floors, and so the published values, are the same.
\<close>

lemma feed_binary32:
  "m_value (feed [Finite (13421773 / 2 ^ 27), Finite (15099494 / 2 ^ 24),
                  Finite (10066330 / 2 ^ 23)] zeroed) = 3
   \<and> m_value (feed [Finite (13421773 / 2 ^ 27), Finite (15099494 / 2 ^ 24),
                  Finite (10066330 / 2 ^ 23), Finite (15099494 / 2 ^ 23),
                  Finite (8598323 / 2 ^ 22)] zeroed) = 2"
  by (simp add: Update_def zeroed_def)

text \<open>
  Claim C10. An \<open>Update\<close> whose time does not have a greater floor than the stored
  timestamp (on finite times: the same or a smaller integer second; also a time or a
  timestamp that is not a number) leaves the published value as it was, in the counter
  and as \<open>GetUps\<close> and \<open>GetFps\<close> read it from an engine holding the counter.
\<close>

theorem Update_keeps_published_value:
  "\<not> float_gt (floorf time) (floorf (m_valueTime c)) \<Longrightarrow>
     m_value (Update time c) = m_value c
     \<and> GetUps (e\<lparr>m_ups := Update time c\<rparr>) = GetUps (e\<lparr>m_ups := c\<rparr>)
     \<and> GetFps (e\<lparr>m_fps := Update time c\<rparr>) = GetFps (e\<lparr>m_fps := c\<rparr>)"
  by (simp add: Update_def Let_def GetUps_def GetFps_def)

theorem Update_keeps_published_value_witness:
  "\<not> float_gt (floorf (Finite 0.9))
        (floorf (m_valueTime \<lparr>m_valueTemp = 4, m_value = 7, m_valueTime = Finite 1.3\<rparr>))
   \<and> m_value (Update (Finite 0.9) \<lparr>m_valueTemp = 4, m_value = 7, m_valueTime = Finite 1.3\<rparr>) = 7
   \<and> GetUps (engine0\<lparr>m_ups := Update (Finite 0.9)
        \<lparr>m_valueTemp = 4, m_value = 7, m_valueTime = Finite 1.3\<rparr>\<rparr>) = 7
   \<and> GetFps (engine0\<lparr>m_fps := Update (Finite 0.9)
        \<lparr>m_valueTemp = 4, m_value = 7, m_valueTime = Finite 1.3\<rparr>\<rparr>) = 7"
  using Update_keeps_published_value
    [of "Finite 0.9" "\<lparr>m_valueTemp = 4, m_value = 7, m_valueTime = Finite 1.3\<rparr>" engine0]
  by (simp add: GetUps_def GetFps_def)

section \<open>RequestClose\<close>

text \<open>
  Claim C9. For both values of the argument, \<open>RequestClose\<close> clears the running flag
  and leaves every other member of the engine as it was: the registry, the game
  pointer, the argv0 string, the time offset, the fps limit, the two deltas, the two
  timers and the two rate counters. The engine after \<open>RequestClose(true)\<close> is the engine
  after \<open>RequestClose(false)\<close>.
\<close>

theorem RequestClose_clears_only_running:
  "RequestClose error e = e\<lparr>m_running := False\<rparr>
   \<and> \<not> IsRunning (RequestClose error e)
   \<and> m_modules (RequestClose error e) = m_modules e
   \<and> m_game (RequestClose error e) = m_game e
   \<and> m_argv0 (RequestClose error e) = m_argv0 e
   \<and> m_timeOffset (RequestClose error e) = m_timeOffset e
   \<and> m_fpsLimit (RequestClose error e) = m_fpsLimit e
   \<and> m_deltaUpdate (RequestClose error e) = m_deltaUpdate e
   \<and> m_deltaRender (RequestClose error e) = m_deltaRender e
   \<and> m_timerUpdate (RequestClose error e) = m_timerUpdate e
   \<and> m_timerRender (RequestClose error e) = m_timerRender e
   \<and> m_ups (RequestClose error e) = m_ups e
   \<and> m_fps (RequestClose error e) = m_fps e
   \<and> RequestClose True e = RequestClose False e"
  by (simp add: RequestClose_def IsRunning_def)

lemma RequestClose_twice: "RequestClose e2 (RequestClose e1 s) = RequestClose e3 s"
  by (simp add: RequestClose_def)

lemma RequestClose_stopped: "\<not> IsRunning e \<Longrightarrow> RequestClose error e = e"
  by (simp add: IsRunning_def RequestClose_def)

section \<open>Runs\<close>

lemma execs_append: "execs (xs @ ys) w = execs ys (execs xs w)"
  by (induction xs arbitrary: w) simp_all

lemma exec_stopped: "\<not> IsRunning (engine w) \<Longrightarrow> \<not> IsRunning (engine (exec s w))"
  by (cases s)
     (auto simp: IsRunning_def AddModule_def RemoveModule_def SetGame_def SetTimeOffset_def
        SetFpsLimit_def RequestClose_def split: prod.splits option.splits)

lemma execs_stopped: "\<not> IsRunning (engine w) \<Longrightarrow> \<not> IsRunning (engine (execs ss w))"
  by (induction ss arbitrary: w) (simp_all add: exec_stopped)

lemma Run_loop_stopped: "Run_loop fs w = Some w' \<Longrightarrow> \<not> IsRunning (engine w')"
  by (induction fs arbitrary: w) (auto simp: Let_def split: if_splits)

lemma Run_loop_closing:
  "Run_loop [closing error] world0 = Some (execs (frame_steps (closing error)) world0)"
  by (simp add: Let_def frame_steps_def closing_def IsRunning_def RequestClose_def
        world0_def engine0_def GetGame_def GetFpsLimit_def throttle_def)

lemma closing_same:
  "execs (frame_steps (closing True)) world0 = execs (frame_steps (closing False)) world0"
  by (simp add: frame_steps_def closing_def RequestClose_def)

text \<open>
  Claim C5. Along every sequence of steps of a run (the public members that change the
  engine, in any order and number, and the actions of the loop), once \<open>IsRunning\<close> is
  false after some prefix of the sequence it is false after every longer prefix.
\<close>

theorem running_flag_stays_cleared:
  "\<not> IsRunning (engine (execs before w)) \<Longrightarrow>
     \<not> IsRunning (engine (execs (before @ after) w))"
  by (simp add: execs_append execs_stopped)

theorem running_flag_stays_cleared_witness:
  "\<not> IsRunning (engine (execs [CallRequestClose False] world0))
   \<and> \<not> IsRunning (engine (execs ([CallRequestClose False]
          @ [CallSetFpsLimit (Finite 60), LoopGameHook, CallSetGame None]) world0))"
  using running_flag_stays_cleared [of "[CallRequestClose False]" world0
      "[CallSetFpsLimit (Finite 60), LoopGameHook, CallSetGame None]"]
  by (simp add: IsRunning_def RequestClose_def world0_def engine0_def)

text \<open>
  Claim C4. Two calls of \<open>RequestClose\<close> in succession, with any arguments, leave the
  engine as one call does, at any point of a sequence of steps; \<open>Run\<close> started from the
  engine after two calls returns what it returns from the engine after one; and a call
  on the engine that the loop has left when it stopped changes nothing.
\<close>

theorem RequestClose_idempotent:
  "RequestClose e2 (RequestClose e1 s) = RequestClose e3 s
   \<and> execs (pre @ CallRequestClose e1 # CallRequestClose e2 # post) w
       = execs (pre @ CallRequestClose e3 # post) w
   \<and> Run status fs (exec (CallRequestClose e2) (exec (CallRequestClose e1) w))
       = Run status fs (exec (CallRequestClose e3) w)
   \<and> (Run_loop fs' v = Some v' \<longrightarrow> exec (CallRequestClose e4) v' = v')"
proof -
  note twice = RequestClose_twice [of e2 e1 _ e3]
  have "exec (CallRequestClose e4) v' = v'" if "Run_loop fs' v = Some v'"
    using Run_loop_stopped [OF that] by (simp add: RequestClose_stopped)
  then show ?thesis
    by (simp add: execs_append twice)
qed

theorem RequestClose_idempotent_witness:
  "Run_loop [closing False] world0 = Some (execs (frame_steps (closing False)) world0)
   \<and> exec (CallRequestClose True) (execs (frame_steps (closing False)) world0)
       = execs (frame_steps (closing False)) world0"
  using Run_loop_closing [of False]
    RequestClose_idempotent [of True True "engine world0" True "[]" "[]" world0
      "\<lambda>e. 0" "[]" "[closing False]" world0 "execs (frame_steps (closing False)) world0" True]
  by simp

lemma exec_forget_error: "exec (forget_error s) w = exec s w"
  by (cases s) (simp_all add: RequestClose_def)

lemma execs_forget_error: "execs (map forget_error ss) w = execs ss w"
  by (induction ss arbitrary: w) (simp_all add: exec_forget_error)

lemma frame_steps_forget_errors: "frame_steps (forget_errors f) = map forget_error (frame_steps f)"
  by (simp add: frame_steps_def forget_errors_def)

lemma Run_loop_forget_errors: "Run_loop (map forget_errors fs) w = Run_loop fs w"
  by (induction fs arbitrary: w)
     (simp_all add: frame_steps_forget_errors execs_forget_error Let_def)

text \<open>
  Claim C1 says that the argument of \<open>RequestClose\<close> decides the exit status of \<open>Run\<close>.
  On the code the argument has no effect on it: whatever \<open>Run\<close> computes from the engine,
  a run returns the same result when every \<open>RequestClose(true)\<close> in it is replaced by
  \<open>RequestClose(false)\<close>. In particular the run whose game calls \<open>RequestClose(true)\<close> in
  its first iteration and the run whose game calls \<open>RequestClose(false)\<close> there both
  return, with the same status.
\<close>

theorem Run_status_ignores_error_flag:
  "Run status (map forget_errors fs) w = Run status fs w
   \<and> Run status [closing True] world0 = Run status [closing False] world0
   \<and> Run status [closing True] world0 \<noteq> None"
  by (simp add: Run_def Run_loop_forget_errors Run_loop_closing closing_same
        del: Run_loop.simps)

section \<open>Replacing the game\<close>

lemma exec_events: "\<exists>rest. events (exec s w) = events w @ rest"
  by (cases s) (auto split: prod.splits option.splits)

lemma execs_events: "\<exists>rest. events (execs ss w) = events w @ rest"
proof (induction ss arbitrary: w)
  case Nil
  show ?case by simp
next
  case (Cons s ss)
  obtain r1 where r1: "events (exec s w) = events w @ r1"
    using exec_events by blast
  obtain r2 where r2: "events (execs ss (exec s w)) = events (exec s w) @ r2"
    using Cons.IH by blast
  show ?case using r1 r2 by simp
qed

lemma exec_SetGame_events:
  "GetGame (engine w) = Some old \<Longrightarrow>
     events (exec (CallSetGame game) w) = events w @ [Destroyed old]"
  by (simp add: GetGame_def SetGame_def)

text \<open>
  Claim C6. When the engine holds the game \<open>old\<close> and \<open>SetGame\<close> installs \<open>new\<close>, whose
  update hook has not been invoked so far, then whatever steps follow, the deletion of
  \<open>old\<close> is the first thing logged from the call on, and it precedes the first
  invocation of the update hook of \<open>new\<close>.
\<close>

theorem old_game_destroyed_before_new_updated:
  assumes held: "GetGame (engine w) = Some old"
    and fresh: "Updated new \<notin> set (events w)"
  shows "(\<exists>rest. events (execs ss (exec (CallSetGame (Some new)) w))
                   = events w @ Destroyed old # rest)
    \<and> Destroyed old \<in> set (takeWhile (\<lambda>e. e \<noteq> Updated new)
         (events (execs ss (exec (CallSetGame (Some new)) w))))"
proof -
  obtain rest where rest:
    "events (execs ss (exec (CallSetGame (Some new)) w))
       = events (exec (CallSetGame (Some new)) w) @ rest"
    using execs_events by blast
  then have eq:
    "events (execs ss (exec (CallSetGame (Some new)) w)) = events w @ Destroyed old # rest"
    using exec_SetGame_events [OF held] by simp
  have other: "\<And>e. e \<in> set (events w) \<Longrightarrow> e \<noteq> Updated new"
    using fresh by blast
  have "takeWhile (\<lambda>e. e \<noteq> Updated new) (events w @ Destroyed old # rest)
          = events w @ Destroyed old # takeWhile (\<lambda>e. e \<noteq> Updated new) rest"
    by (simp add: takeWhile_append2 [of "events w" "\<lambda>e. e \<noteq> Updated new", OF other])
  then show ?thesis using eq by simp
qed

theorem old_game_destroyed_before_new_updated_witness:
  "GetGame (engine world0) = Some 1 \<and> Updated 2 \<notin> set (events world0)
   \<and> events (execs [LoopGameHook, CallSetGame (Some 3), LoopGameHook]
        (exec (CallSetGame (Some 2)) world0))
       = [Destroyed 1, Updated 2, Destroyed 2, Updated 3]
   \<and> Destroyed 1 \<in> set (takeWhile (\<lambda>e. e \<noteq> Updated 2)
         (events (execs [LoopGameHook, CallSetGame (Some 3), LoopGameHook]
            (exec (CallSetGame (Some 2)) world0))))"
  using old_game_destroyed_before_new_updated
    [of world0 1 2 "[LoopGameHook, CallSetGame (Some 3), LoopGameHook]"]
  by (simp add: GetGame_def SetGame_def world0_def engine0_def)

section \<open>Registering a module twice\<close>




section \<open>The frame-rate cap\<close>

text \<open>
  Claim C8. With a cap that is not above zero (zero, a negative value such as the -1
  of the comment on \<open>SetFpsLimit\<close>, or a value that does not compare) the governor of
  the loop suspends nothing, whatever the measured interval. A suspension under a finite
  cap \<open>c\<close> happens only when \<open>c\<close> is above zero, and it fills the interval up to \<open>1 / c\<close>
  seconds.
\<close>

theorem throttle_needs_positive_cap:
  "(\<not> float_gt cap (Finite 0) \<longrightarrow>
      throttle (GetFpsLimit (SetFpsLimit cap e)) i = None
      \<and> exec (LoopThrottle i) (exec (CallSetFpsLimit cap) w) = exec (CallSetFpsLimit cap) w)
   \<and> (throttle (Finite c) j = Some d \<longrightarrow> 0 < c \<and> 0 < d \<and> j + d = 1 / c)"
  by (auto simp: throttle_def GetFpsLimit_def SetFpsLimit_def Let_def split: if_splits)

theorem throttle_needs_positive_cap_witness:
  "\<not> float_gt (Finite (- 1)) (Finite 0)
   \<and> throttle (GetFpsLimit (SetFpsLimit (Finite (- 1)) engine0)) 0.01 = None
   \<and> exec (LoopThrottle 0.01) (exec (CallSetFpsLimit (Finite (- 1))) world0)
       = exec (CallSetFpsLimit (Finite (- 1))) world0
   \<and> throttle (Finite 30) 0.01 = Some (7 / 300)
   \<and> (0::real) < 30 \<and> (0::real) < 7 / 300 \<and> (0.01::real) + 7 / 300 = 1 / 30"
proof -
  have pos: "throttle (Finite 30) 0.01 = Some (7 / 300)"
    by (simp add: throttle_def)
  show ?thesis
    using pos throttle_needs_positive_cap [of "Finite (- 1)" engine0 "0.01" world0 30 "0.01" "7 / 300"]
    by simp
qed

end
